theory Spec2Isabelle
  imports Complex_Main "HOL-Library.Word"
begin

section \<open>Conventions of the embedding\<close>

text \<open>
  The Go sources embedded here are \<^verbatim>\<open>AutonomousConsciousnessV4\<close> (package
  \<^verbatim>\<open>deeptreeecho\<close>) and \<^verbatim>\<open>AutonomousEchoself\<close> (package \<^verbatim>\<open>core\<close>).

  \<^item> A \<^verbatim>\<open>float64\<close> is a \<^typ>\<open>real\<close>: the model covers finite values and ignores
    rounding; NaN and the infinities are outside it.
  \<^item> A \<^verbatim>\<open>time.Time\<close> is an \<^typ>\<open>int\<close> (nanoseconds on some fixed clock); every
    \<^verbatim>\<open>time.Now()\<close> of the source is an explicit argument.
  \<^item> A \<^verbatim>\<open>time.Duration\<close> is an \<^typ>\<open>int\<close> number of nanoseconds; where the source
    multiplies durations the 64-bit wrap-around is written out (\<open>wrap64\<close>).
  \<^item> A \<^verbatim>\<open>uint64\<close> counter is a \<^typ>\<open>64 word\<close>.
  \<^item> A method that mutates its receiver takes the receiver and returns the new one.
  \<^item> Every critical section of the source (the code between \<^verbatim>\<open>Lock\<close> and
    \<^verbatim>\<open>Unlock\<close>) is one atomic step; a goroutine started with \<^verbatim>\<open>go\<close> is
    recorded in the state and runs as a later step.
  \<^item> Console output (\<^verbatim>\<open>fmt.Println\<close>) is not modelled.
\<close>

type_synonym Time = int
type_synonym Duration = int

definition Second :: Duration where
  "Second = 1000000000"

definition Minute :: Duration where
  "Minute = 60 * Second"

definition Hour :: Duration where
  "Hour = 60 * Minute"

definition wrap64 :: "int \<Rightarrow> int" where
  \<comment> \<open>the value of an \<^verbatim>\<open>int64\<close> computation: two's complement wrap-around\<close>
  "wrap64 x = (x + 2 ^ 63) mod 2 ^ 64 - 2 ^ 63"

definition float_to_int64 :: "real \<Rightarrow> int" where
  \<comment> \<open>Go's conversion of a \<^verbatim>\<open>float64\<close> to an integer type discards the fraction
      (truncation towards zero). Outside the \<^verbatim>\<open>int64\<close> range the result is
      implementation-dependent; the model wraps there.\<close>
  "float_to_int64 x = wrap64 (if 0 \<le> x then \<lfloor>x\<rfloor> else \<lceil>x\<rceil>)"

definition Minutes :: "Duration \<Rightarrow> real" where
  \<comment> \<open>\<^verbatim>\<open>Duration.Minutes()\<close>: the duration as a floating-point number of minutes\<close>
  "Minutes d = real_of_int d / real_of_int Minute"

text \<open>
  The errors of \<^verbatim>\<open>Start\<close> and \<^verbatim>\<open>Stop\<close>, each with the text given to
  \<^verbatim>\<open>fmt.Errorf\<close>; \<open>StartFailed\<close> also carries the wrapped error of the subcomponent.
\<close>

datatype error =
    AlreadyRunning string
  | NotRunning string
  | StartFailed string string

section \<open>AutonomousConsciousnessV4: the data\<close>

record LoadSnapshot =
  Timestamp :: Time
  Load :: real
  Fatigue :: real

record CognitiveLoadManager =
  currentLoad :: real
  loadHistory :: "LoadSnapshot list"
  fatigueLevel :: real
  fatigueRate :: real
  recoveryRate :: real
  maxLoad :: real

record AutomaticDreamTrigger =
  enabled :: bool
  fatigueThreshold :: real
  minWakeDuration :: Duration
  lastRestTime :: Time
  restQuality :: real
  circadianPhase :: real

record Thought =
  Content :: string
  Importance :: real

record WorkingMemory =
  buffer :: "Thought list"
  capacity :: int

text \<open>
  \<^verbatim>\<open>DiscussionManager\<close> and \<^verbatim>\<open>SkillRegistry\<close> are declared outside the embedded
  files. The code below only asks them one question each
  (\<^verbatim>\<open>HasActiveDiscussions()\<close>, \<^verbatim>\<open>IsCurrentlyPracticing()\<close>), so each is a record
  holding the answer. A nil \<^verbatim>\<open>discussionMgr\<close> pointer is \<open>None\<close>.
\<close>

record DiscussionManager =
  HasActiveDiscussions :: bool

record SkillRegistry =
  IsCurrentlyPracticing :: bool

record AutonomousConsciousnessV4 =
  workingMemory :: WorkingMemory
  loadManager :: CognitiveLoadManager
  dreamTrigger :: AutomaticDreamTrigger
  discussionMgr :: "DiscussionManager option"
  skills :: SkillRegistry
  persistence :: bool  \<comment> \<open>whether the \<^verbatim>\<open>persistence\<close> pointer is non-nil\<close>
  awake :: bool
  running :: bool
  startTime :: Time
  iterations :: int
  componentsStarted :: "string list"  \<comment> \<open>subcomponents whose \<^verbatim>\<open>Start()\<close> returned nil\<close>
  loopsLaunched :: "string list"  \<comment> \<open>the periodic goroutines launched by \<^verbatim>\<open>Start\<close>\<close>
  dreamGoroutines :: "Duration list"  \<comment> \<open>\<^verbatim>\<open>go ac.dreamCycle(d)\<close> launched, not yet finished\<close>
  inDream :: bool  \<comment> \<open>between \<^verbatim>\<open>dream.EnterDream()\<close> and \<^verbatim>\<open>dream.ExitDream()\<close>\<close>
  cancelCalls :: nat  \<comment> \<open>calls of \<^verbatim>\<open>ac.cancel()\<close>, which ends every loop\<close>

definition NewAutonomousConsciousnessV4 :: "bool \<Rightarrow> AutonomousConsciousnessV4" where
  \<comment> \<open>The argument: whether SUPABASE_URL and SUPABASE_KEY gave a persistence layer.
      A new discussion manager has no active discussion and a new skill registry is
      not practicing.\<close>
  "NewAutonomousConsciousnessV4 hasPersistence =
     \<lparr> workingMemory = \<lparr> buffer = [], capacity = 7 \<rparr>,
       loadManager = \<lparr> currentLoad = 0, loadHistory = [], fatigueLevel = 0,
                        fatigueRate = 0.01, recoveryRate = 0.05, maxLoad = 1 \<rparr>,
       dreamTrigger = \<lparr> enabled = True, fatigueThreshold = 0.75,
                         minWakeDuration = 30 * Minute, lastRestTime = 0,
                         restQuality = 0, circadianPhase = 0 \<rparr>,
       discussionMgr = Some \<lparr> HasActiveDiscussions = False \<rparr>,
       skills = \<lparr> IsCurrentlyPracticing = False \<rparr>,
       persistence = hasPersistence,
       awake = False,
       running = False,
       startTime = 0,
       iterations = 0,
       componentsStarted = [],
       loopsLaunched = [],
       dreamGoroutines = [],
       inDream = False,
       cancelCalls = 0 \<rparr>"

section \<open>Load and fatigue\<close>

definition hasActiveDiscussion :: "AutonomousConsciousnessV4 \<Rightarrow> bool" where
  \<comment> \<open>\<^verbatim>\<open>ac.discussionMgr != nil && ac.discussionMgr.HasActiveDiscussions()\<close>\<close>
  "hasActiveDiscussion ac =
     (case discussionMgr ac of None \<Rightarrow> False | Some dm \<Rightarrow> HasActiveDiscussions dm)"

definition calculateCurrentLoad :: "AutonomousConsciousnessV4 \<Rightarrow> real" where
  "calculateCurrentLoad ac =
     (let baseLoad = 0.1;
          memoryLoad = real (length (buffer (workingMemory ac)))
                         / real_of_int (capacity (workingMemory ac)) * 0.3;
          discussionLoad = (if hasActiveDiscussion ac then 0.4 else 0);
          practiceLoad = (if IsCurrentlyPracticing (skills ac) then 0.3 else 0);
          totalLoad = baseLoad + memoryLoad + discussionLoad + practiceLoad
      in if totalLoad > 1 then 1 else totalLoad)"

definition cognitiveLoadMonitoring_tick ::
  "Time \<Rightarrow> AutonomousConsciousnessV4 \<Rightarrow> AutonomousConsciousnessV4" where
  \<comment> \<open>the body of the \<^verbatim>\<open>ticker.C\<close> case of \<^verbatim>\<open>cognitiveLoadMonitoring\<close>\<close>
  "cognitiveLoadMonitoring_tick now ac =
     (let lm = loadManager ac;
          lm1 = (if awake ac
                 then lm\<lparr>fatigueLevel := fatigueLevel lm + currentLoad lm * fatigueRate lm\<rparr>
                 else lm);
          snapshot = \<lparr> Timestamp = now, Load = currentLoad lm1, Fatigue = fatigueLevel lm1 \<rparr>;
          lm2 = lm1\<lparr>loadHistory := loadHistory lm1 @ [snapshot]\<rparr>;
          lm3 = (if length (loadHistory lm2) > 1000
                 then lm2\<lparr>loadHistory := tl (loadHistory lm2)\<rparr>
                 else lm2)
      in ac\<lparr>loadManager := lm3\<rparr>)"

section \<open>Wake, rest and the dream cycle\<close>

definition Wake :: "Time \<Rightarrow> AutonomousConsciousnessV4 \<Rightarrow> AutonomousConsciousnessV4" where
  "Wake now ac =
     (if awake ac then ac
      else ac\<lparr> awake := True,
               startTime := now,
               loadManager := (loadManager ac)
                  \<lparr>fatigueLevel := fatigueLevel (loadManager ac) * 0.3\<rparr> \<rparr>)"

definition restDuration :: "real \<Rightarrow> Duration" where
  \<comment> \<open>\<^verbatim>\<open>time.Duration(fatigue*60) * time.Minute\<close>, then the two bounds of \<^verbatim>\<open>Rest\<close>\<close>
  "restDuration fatigue =
     (let d = wrap64 (float_to_int64 (fatigue * 60) * Minute);
          d1 = (if d < 5 * Minute then 5 * Minute else d);
          d2 = (if d1 > 2 * Hour then 2 * Hour else d1)
      in d2)"

definition Rest :: "AutonomousConsciousnessV4 \<Rightarrow> AutonomousConsciousnessV4" where
  "Rest ac =
     (if \<not> awake ac then ac
      else let ac1 = ac\<lparr>awake := False\<rparr>;
               fatigue = fatigueLevel (loadManager ac1)
           in ac1\<lparr>dreamGoroutines := dreamGoroutines ac1 @ [restDuration fatigue]\<rparr>)"

definition recover :: "Duration \<Rightarrow> CognitiveLoadManager \<Rightarrow> CognitiveLoadManager" where
  \<comment> \<open>the locked block "Recover from fatigue" of \<^verbatim>\<open>dreamCycle\<close>\<close>
  "recover duration lm =
     (let lm1 = lm\<lparr>fatigueLevel := fatigueLevel lm * (1 - recoveryRate lm * Minutes duration)\<rparr>
      in if fatigueLevel lm1 < 0 then lm1\<lparr>fatigueLevel := 0\<rparr> else lm1)"

definition dreamCycle ::
  "Duration \<Rightarrow> Time \<Rightarrow> AutonomousConsciousnessV4 \<Rightarrow> AutonomousConsciousnessV4" where
  \<comment> \<open>The goroutine \<^verbatim>\<open>dreamCycle(duration)\<close>, entered at time \<open>t0\<close>. The three
      consolidation helpers only print. \<^verbatim>\<open>time.Sleep(duration)\<close> returns no earlier
      than \<open>t0 + duration\<close>; the model wakes at exactly that time.\<close>
  "dreamCycle duration t0 ac =
     (let ac1 = ac\<lparr>inDream := True\<rparr>;
          ac2 = ac1\<lparr>loadManager := recover duration (loadManager ac1)\<rparr>;
          ac3 = ac2\<lparr>inDream := False\<rparr>;
          ac4 = Wake (t0 + duration) ac3
      in ac4\<lparr>dreamGoroutines := remove1 duration (dreamGoroutines ac4)\<rparr>)"

section \<open>The automatic rest trigger\<close>

definition shouldInitiateRest :: "Time \<Rightarrow> AutonomousConsciousnessV4 \<Rightarrow> bool" where
  \<comment> \<open>\<open>now\<close> is the clock read by \<^verbatim>\<open>time.Since(ac.startTime)\<close>\<close>
  "shouldInitiateRest now ac =
     (let fatigue = fatigueLevel (loadManager ac)
      in if fatigue < fatigueThreshold (dreamTrigger ac) then False
         else let timeSinceWake = now - startTime ac
              in if timeSinceWake < minWakeDuration (dreamTrigger ac) then False
                 else if hasActiveDiscussion ac then False
                 else True)"

definition automaticDreamTriggerLoop_tick ::
  "Time \<Rightarrow> AutonomousConsciousnessV4 \<Rightarrow> AutonomousConsciousnessV4" where
  \<comment> \<open>the body of the \<^verbatim>\<open>ticker.C\<close> case of \<^verbatim>\<open>automaticDreamTriggerLoop\<close>\<close>
  "automaticDreamTriggerLoop_tick now ac =
     (if \<not> enabled (dreamTrigger ac) \<or> \<not> awake ac then ac
      else if shouldInitiateRest now ac then Rest ac
      else ac)"

section \<open>Persistence stubs\<close>

definition loadPersistedStateV4 ::
  "AutonomousConsciousnessV4 \<Rightarrow> (error + unit) \<times> AutonomousConsciousnessV4" where
  \<comment> \<open>"Stub implementation for Iteration 4": prints and returns nil\<close>
  "loadPersistedStateV4 ac = (Inr (), ac)"

definition saveCurrentStateV4 ::
  "AutonomousConsciousnessV4 \<Rightarrow> (error + unit) \<times> AutonomousConsciousnessV4" where
  \<comment> \<open>"Stub implementation for Iteration 4": prints and returns nil\<close>
  "saveCurrentStateV4 ac = (Inr (), ac)"

section \<open>Start and Stop of AutonomousConsciousnessV4\<close>

text \<open>
  The six subcomponents started by \<^verbatim>\<open>Start\<close> are declared outside the embedded
  files. What each \<^verbatim>\<open>Start()\<close> call returns is an input: \<open>None\<close> for a nil error,
  \<open>Some e\<close> for the error \<open>e\<close>.
\<close>

record StartResults =
  aarCore_Start :: "string option"
  inferenceSystem_Start :: "string option"
  scheduler_Start :: "string option"
  consciousnessStream_Start :: "string option"
  dream_Start :: "string option"
  metamodel_Start :: "string option"

definition started :: "string \<Rightarrow> AutonomousConsciousnessV4 \<Rightarrow> AutonomousConsciousnessV4" where
  "started name ac = ac\<lparr>componentsStarted := componentsStarted ac @ [name]\<rparr>"

definition Start ::
  "StartResults \<Rightarrow> Time \<Rightarrow> Time \<Rightarrow> AutonomousConsciousnessV4
     \<Rightarrow> (error + unit) \<times> AutonomousConsciousnessV4" where
  \<comment> \<open>\<open>t0\<close> is the clock at entry, \<open>t1\<close> the clock read by the final \<^verbatim>\<open>Wake()\<close>\<close>
  "Start env t0 t1 ac =
     (if running ac then (Inl (AlreadyRunning ''autonomous consciousness already running''), ac)
      else
        let ac0 = ac\<lparr>running := True, startTime := t0\<rparr> in
        case aarCore_Start env of
          Some e \<Rightarrow> (Inl (StartFailed ''failed to start AAR core'' e), ac0)
        | None \<Rightarrow>
        let ac1 = started ''aarCore'' ac0 in
        case inferenceSystem_Start env of
          Some e \<Rightarrow> (Inl (StartFailed ''failed to start concurrent inference engines'' e), ac1)
        | None \<Rightarrow>
        let ac2 = started ''inferenceSystem'' ac1 in
        case scheduler_Start env of
          Some e \<Rightarrow> (Inl (StartFailed ''failed to start 12-step scheduler'' e), ac2)
        | None \<Rightarrow>
        let ac3 = started ''scheduler'' ac2 in
        case consciousnessStream_Start env of
          Some e \<Rightarrow> (Inl (StartFailed ''failed to start consciousness stream'' e), ac3)
        | None \<Rightarrow>
        let ac4 = started ''consciousnessStream'' ac3 in
        case dream_Start env of
          Some e \<Rightarrow> (Inl (StartFailed ''failed to start dream system'' e), ac4)
        | None \<Rightarrow>
        let ac5 = started ''dream'' ac4 in
        case metamodel_Start env of
          Some e \<Rightarrow> (Inl (StartFailed ''failed to start metamodel'' e), ac5)
        | None \<Rightarrow>
        let ac6 = started ''metamodel'' ac5;
            ac7 = (if persistence ac6 then snd (loadPersistedStateV4 ac6) else ac6);
            ac8 = ac7\<lparr>loopsLaunched := loopsLaunched ac7 @
                    [''consciousnessIntegrationLoop'', ''cognitiveLoadMonitoring'',
                     ''automaticDreamTriggerLoop'', ''skillPracticeLoop'',
                     ''periodicPersistence'']\<rparr>
        in (Inr (), Wake t1 ac8))"

definition Stop ::
  "AutonomousConsciousnessV4 \<Rightarrow> (error + unit) \<times> AutonomousConsciousnessV4" where
  "Stop ac =
     (if \<not> running ac then (Inl (NotRunning ''autonomous consciousness not running''), ac)
      else
        let ac1 = ac\<lparr>running := False\<rparr>;
            ac2 = (if persistence ac1 then snd (saveCurrentStateV4 ac1) else ac1);
            ac3 = ac2\<lparr>cancelCalls := cancelCalls ac2 + 1\<rparr>
        in (Inr (), ac3))"

definition allStarted :: "StartResults \<Rightarrow> bool" where
  \<comment> \<open>no subcomponent returned an error\<close>
  "allStarted env \<longleftrightarrow>
     aarCore_Start env = None \<and> inferenceSystem_Start env = None \<and>
     scheduler_Start env = None \<and> consciousnessStream_Start env = None \<and>
     dream_Start env = None \<and> metamodel_Start env = None"

definition allStart :: StartResults where
  \<comment> \<open>every subcomponent starts\<close>
  "allStart = \<lparr> aarCore_Start = None, inferenceSystem_Start = None, scheduler_Start = None,
                consciousnessStream_Start = None, dream_Start = None,
                metamodel_Start = None \<rparr>"

section \<open>AutonomousEchoself: the data\<close>

datatype EchoselfState =
    StateInitializing
  | StateAsleep
  | StateWaking
  | StateAwake
  | StateThinking
  | StateResting
  | StateDreaming

record EchoselfConfig =
  PersistenceDir :: string
  WakeCycleDuration :: Duration
  RestCycleDuration :: Duration
  DreamCycleDuration :: Duration
  FatigueThreshold :: real
  EngagementThreshold :: real
  CuriosityLevel :: real
  EnableStreamOfConsciousness :: bool
  EnableAutonomousLearning :: bool
  EnableDiscussions :: bool
  EnableDreamCycles :: bool

definition DefaultEchoselfConfig :: EchoselfConfig where
  "DefaultEchoselfConfig =
     \<lparr> PersistenceDir = ''/tmp/echoself'',
       WakeCycleDuration = 4 * Hour,
       RestCycleDuration = 30 * Minute,
       DreamCycleDuration = 15 * Minute,
       FatigueThreshold = 0.8,
       EngagementThreshold = 0.5,
       CuriosityLevel = 0.8,
       EnableStreamOfConsciousness = True,
       EnableAutonomousLearning = True,
       EnableDiscussions = True,
       EnableDreamCycles = True \<rparr>"

datatype EventType = EventWake | EventRest | EventDream | EventThought | EventLearning

record CognitiveEvent =
  Type :: EventType
  Priority :: int
  ScheduledAt :: Time
  Payload :: string

text \<open>
  The collaborators of \<^verbatim>\<open>AutonomousEchoself\<close> (\<^verbatim>\<open>echoBeats\<close>,
  \<^verbatim>\<open>streamOfConsciousness\<close>, \<^verbatim>\<open>dreamCycle\<close>, \<^verbatim>\<open>interestPatterns\<close>,
  \<^verbatim>\<open>discussionManager\<close>) are declared outside the embedded files. A pointer field is
  a \<^typ>\<open>bool\<close> (non-nil or nil); the calls the code makes on a collaborator are
  recorded (\<open>scheduledEvents\<close>, \<open>collaboratorCalls\<close>, the three \<open>dreamCycle_\<close> counts),
  and what a collaborator returns is an argument of the function that asks.
\<close>

record AutonomousEchoself =
  streamOfConsciousness :: bool
  dreamCycleIntegration :: bool  \<comment> \<open>the field \<^verbatim>\<open>dreamCycle\<close>\<close>
  discussionManager :: bool
  interestPatterns :: bool
  isAwake :: bool
  currentState :: EchoselfState
  config :: EchoselfConfig
  uptimeStart :: Time
  cyclesCompleted :: "64 word"
  wisdomCultivated :: "64 word"
  autonomousActions :: "64 word"
  wakeTime :: Time  \<comment> \<open>the local variable of \<^verbatim>\<open>autonomousLifeCycle\<close>\<close>
  backgroundLaunched :: "string list"  \<comment> \<open>goroutines launched by \<^verbatim>\<open>Start\<close>\<close>
  scheduledEvents :: "CognitiveEvent list"  \<comment> \<open>given to \<^verbatim>\<open>echoBeats.ScheduleEvent\<close>\<close>
  dreamCycle_memories :: nat  \<comment> \<open>calls of \<^verbatim>\<open>dreamCycle.AddEpisodicMemory\<close>\<close>
  dreamCycle_begun :: nat  \<comment> \<open>calls of \<^verbatim>\<open>dreamCycle.BeginDreamCycle\<close>\<close>
  dreamCycle_ended :: nat  \<comment> \<open>calls of \<^verbatim>\<open>dreamCycle.EndDreamCycle\<close>\<close>
  dreamEndGoroutines :: nat  \<comment> \<open>goroutines of \<^verbatim>\<open>initiateDream\<close> still asleep\<close>
  collaboratorCalls :: "string list"  \<comment> \<open>shutdown calls made by \<^verbatim>\<open>Stop\<close>, in order\<close>

definition NewAutonomousEchoself :: "EchoselfConfig option \<Rightarrow> Time \<Rightarrow> AutonomousEchoself" where
  \<comment> \<open>\<open>None\<close> is a nil \<^verbatim>\<open>config\<close>; the second argument is \<^verbatim>\<open>time.Now()\<close>\<close>
  "NewAutonomousEchoself cfg now =
     (let config = (case cfg of None \<Rightarrow> DefaultEchoselfConfig | Some c \<Rightarrow> c)
      in \<lparr> streamOfConsciousness = EnableStreamOfConsciousness config,
           dreamCycleIntegration = EnableDreamCycles config,
           discussionManager = EnableDiscussions config,
           interestPatterns = True,
           isAwake = False,
           currentState = StateInitializing,
           config = config,
           uptimeStart = now,
           cyclesCompleted = 0,
           wisdomCultivated = 0,
           autonomousActions = 0,
           wakeTime = 0,
           backgroundLaunched = [],
           scheduledEvents = [],
           dreamCycle_memories = 0,
           dreamCycle_begun = 0,
           dreamCycle_ended = 0,
           dreamEndGoroutines = 0,
           collaboratorCalls = [] \<rparr>)"

section \<open>Start and Stop of AutonomousEchoself\<close>

record EchoselfStartResults =
  echoBeats_Start :: "string option"
  streamOfConsciousness_Start :: "string option"

definition Echoself_Start ::
  "EchoselfStartResults \<Rightarrow> Time \<Rightarrow> AutonomousEchoself
     \<Rightarrow> (error + unit) \<times> AutonomousEchoself" where
  \<comment> \<open>\<^verbatim>\<open>(*AutonomousEchoself).Start\<close>; \<open>now\<close> is the clock read when
      \<^verbatim>\<open>autonomousLifeCycle\<close> begins\<close>
  "Echoself_Start env now ae =
     (if isAwake ae then (Inl (AlreadyRunning ''echoself already awake''), ae)
      else
        let ae0 = ae\<lparr>currentState := StateWaking\<rparr> in
        case echoBeats_Start env of
          Some e \<Rightarrow> (Inl (StartFailed ''failed to start echobeats'' e), ae0)
        | None \<Rightarrow>
        case (if streamOfConsciousness ae0 then streamOfConsciousness_Start env else None) of
          Some e \<Rightarrow> (Inl (StartFailed ''failed to start stream of consciousness'' e), ae0)
        | None \<Rightarrow>
        let ae1 = ae0\<lparr>backgroundLaunched := backgroundLaunched ae0 @
                    [''autonomousLifeCycle'', ''interestDecayLoop'',
                     ''consciousnessMonitoring''],
                   wakeTime := now\<rparr>;
            ae2 = ae1\<lparr>isAwake := True, currentState := StateAwake\<rparr>
        in (Inr (), ae2))"

definition persistAllState :: "AutonomousEchoself \<Rightarrow> string list" where
  \<comment> \<open>the calls made by \<^verbatim>\<open>persistAllState\<close>\<close>
  "persistAllState ae =
     (if interestPatterns ae then [''interestPatterns.PersistState''] else []) @
     (if discussionManager ae then [''discussionManager.PersistState''] else [])"

definition Echoself_Stop ::
  "AutonomousEchoself \<Rightarrow> (error + unit) \<times> AutonomousEchoself" where
  \<comment> \<open>\<^verbatim>\<open>(*AutonomousEchoself).Stop\<close>\<close>
  "Echoself_Stop ae =
     (if \<not> isAwake ae then (Inl (NotRunning ''echoself not awake''), ae)
      else
        let ae1 = ae\<lparr>currentState := StateResting, isAwake := False\<rparr>;
            calls = (if streamOfConsciousness ae1 then [''streamOfConsciousness.Stop''] else [])
                    @ [''echoBeats.Stop''] @ persistAllState ae1 @ [''cancel'']
        in (Inr (), ae1\<lparr>collaboratorCalls := collaboratorCalls ae1 @ calls\<rparr>))"

section \<open>The rest and dream cycles of AutonomousEchoself\<close>

definition initiateRest :: "Time \<Rightarrow> AutonomousEchoself \<Rightarrow> AutonomousEchoself" where
  "initiateRest now ae =
     (let ae1 = ae\<lparr>currentState := StateResting\<rparr>
      in ae1\<lparr>scheduledEvents := scheduledEvents ae1 @
              [\<lparr> Type = EventWake, Priority = 100,
                 ScheduledAt = now + RestCycleDuration (config ae1),
                 Payload = ''rest_complete'' \<rparr>]\<rparr>)"

definition initiateDream :: "nat \<Rightarrow> AutonomousEchoself \<Rightarrow> AutonomousEchoself" where
  \<comment> \<open>the argument: how many thoughts \<^verbatim>\<open>GetRecentThoughts(20)\<close> returns\<close>
  "initiateDream recentThoughts ae =
     (let ae1 = ae\<lparr>currentState := StateDreaming\<rparr>
      in if dreamCycleIntegration ae1
         then
           let ae2 = (if streamOfConsciousness ae1
                      then ae1\<lparr>dreamCycle_memories := dreamCycle_memories ae1 + recentThoughts\<rparr>
                      else ae1);
               ae3 = ae2\<lparr>dreamCycle_begun := dreamCycle_begun ae2 + 1\<rparr>
           in ae3\<lparr>dreamEndGoroutines := dreamEndGoroutines ae3 + 1\<rparr>
         else ae1)"

definition dreamEnd :: "AutonomousEchoself \<Rightarrow> AutonomousEchoself" where
  \<comment> \<open>the goroutine launched by \<^verbatim>\<open>initiateDream\<close>, once its
      \<^verbatim>\<open>time.Sleep(DreamCycleDuration)\<close> has returned; it runs only if one was launched\<close>
  "dreamEnd ae =
     (if dreamEndGoroutines ae = 0 then ae
      else
        let ae1 = ae\<lparr>dreamEndGoroutines := dreamEndGoroutines ae - 1\<rparr>;
            ae2 = ae1\<lparr>dreamCycle_ended := dreamCycle_ended ae1 + 1\<rparr>
        in ae2\<lparr>cyclesCompleted := cyclesCompleted ae2 + 1\<rparr>)"

definition autonomousLifeCycle_tick ::
  "Time \<Rightarrow> bool \<Rightarrow> nat \<Rightarrow> AutonomousEchoself \<Rightarrow> AutonomousEchoself" where
  \<comment> \<open>the body of the \<^verbatim>\<open>ticker.C\<close> case of \<^verbatim>\<open>autonomousLifeCycle\<close>;
      \<open>isDreaming\<close> is what \<^verbatim>\<open>dreamCycle.IsDreaming()\<close> returns\<close>
  "autonomousLifeCycle_tick now isDreaming recentThoughts ae =
     (case currentState ae of
        StateAwake \<Rightarrow>
          if now - wakeTime ae > WakeCycleDuration (config ae)
          then (initiateRest now ae)\<lparr>wakeTime := now\<rparr> else ae
      | StateThinking \<Rightarrow>
          if now - wakeTime ae > WakeCycleDuration (config ae)
          then (initiateRest now ae)\<lparr>wakeTime := now\<rparr> else ae
      | StateResting \<Rightarrow>
          if EnableDreamCycles (config ae) \<and> dreamCycleIntegration ae \<and> \<not> isDreaming
          then initiateDream recentThoughts ae else ae
      | _ \<Rightarrow> ae)"

definition handleWakeEvent :: "AutonomousEchoself \<Rightarrow> AutonomousEchoself" where
  "handleWakeEvent ae = ae\<lparr>currentState := StateAwake\<rparr>"

definition handleThoughtEvent :: "bool \<Rightarrow> AutonomousEchoself \<Rightarrow> AutonomousEchoself" where
  \<comment> \<open>the argument: whether \<^verbatim>\<open>event.Payload\<close> is a string\<close>
  "handleThoughtEvent payloadIsString ae =
     (if payloadIsString then ae\<lparr>autonomousActions := autonomousActions ae + 1\<rparr> else ae)"

definition onWisdomExtracted :: "AutonomousEchoself \<Rightarrow> AutonomousEchoself" where
  \<comment> \<open>the callback given to \<^verbatim>\<open>SetOnWisdomExtracted\<close> in \<^verbatim>\<open>setupIntegrations\<close>\<close>
  "onWisdomExtracted ae = ae\<lparr>wisdomCultivated := wisdomCultivated ae + 1\<rparr>"

record Metrics =
  uptime :: Duration
  current_state :: EchoselfState
  is_awake :: bool
  cycles_completed :: "64 word"
  wisdom_cultivated :: "64 word"
  autonomous_actions :: "64 word"

definition GetMetrics :: "Time \<Rightarrow> AutonomousEchoself \<Rightarrow> Metrics" where
  \<comment> \<open>the six entries \<^verbatim>\<open>GetMetrics\<close> always returns; the others are the
      collaborators' own metrics\<close>
  "GetMetrics now ae =
     \<lparr> uptime = now - uptimeStart ae,
       current_state = currentState ae,
       is_awake = isAwake ae,
       cycles_completed = cyclesCompleted ae,
       wisdom_cultivated = wisdomCultivated ae,
       autonomous_actions = autonomousActions ae \<rparr>"

text \<open>
  Everything that can happen to a running \<^verbatim>\<open>AutonomousEchoself\<close>, one constructor for
  each entry point and each goroutine step, with the values the collaborators supply.
\<close>

datatype EchoselfEvent =
    EvStart EchoselfStartResults Time
  | EvStop
  | EvLifeCycleTick Time bool nat
  | EvWake
  | EvRest Time
  | EvDream nat
  | EvDreamEnd
  | EvThought bool
  | EvLearning
  | EvWisdom

fun step :: "EchoselfEvent \<Rightarrow> AutonomousEchoself \<Rightarrow> AutonomousEchoself" where
  "step (EvStart env now) ae = snd (Echoself_Start env now ae)"
| "step EvStop ae = snd (Echoself_Stop ae)"
| "step (EvLifeCycleTick now isDreaming n) ae = autonomousLifeCycle_tick now isDreaming n ae"
| "step EvWake ae = handleWakeEvent ae"
| "step (EvRest now) ae = initiateRest now ae"
| "step (EvDream n) ae = initiateDream n ae"
| "step EvDreamEnd ae = dreamEnd ae"
| "step (EvThought b) ae = handleThoughtEvent b ae"
| "step EvLearning ae = ae"
| "step EvWisdom ae = onWisdomExtracted ae"

fun run :: "EchoselfEvent list \<Rightarrow> AutonomousEchoself \<Rightarrow> AutonomousEchoself" where
  "run [] ae = ae"
| "run (e # es) ae = run es (step e ae)"

fun dreamCycles :: "nat \<Rightarrow> EchoselfEvent list" where
  \<comment> \<open>\<open>N\<close> dream cycles driven to completion, one after the other\<close>
  "dreamCycles 0 = []"
| "dreamCycles (Suc n) = EvDream 0 # EvDreamEnd # dreamCycles n"

section \<open>The duration formula as the specification words it\<close>

definition spec_restMinutes :: "real \<Rightarrow> real" where
  \<comment> \<open>\<^verbatim>\<open>clamp(fatigue * dreamScaleMinutes, minDreamMinutes, maxDreamMinutes)\<close> with
      the constants 60, 5 and 120 (two hours), in minutes\<close>
  "spec_restMinutes fatigue = max 5 (min 120 (fatigue * 60))"

section \<open>Concrete instances\<close>

definition dreamFails :: StartResults where
  \<comment> \<open>every subcomponent starts but the dream system\<close>
  "dreamFails = allStart\<lparr>dream_Start := Some ''dream system unavailable''\<rparr>"

definition startedInstance :: AutonomousConsciousnessV4 where
  "startedInstance = snd (Start allStart 0 0 (NewAutonomousConsciousnessV4 True))"

definition startedEchoself :: AutonomousEchoself where
  "startedEchoself =
     snd (Echoself_Start \<lparr> echoBeats_Start = None, streamOfConsciousness_Start = None \<rparr> 0
            (NewAutonomousEchoself None 0))"

definition busyInstance :: AutonomousConsciousnessV4 where
  \<comment> \<open>A freshly started instance whose recorded load is 1, the largest value
      \<open>calculateCurrentLoad\<close> returns (full working memory, a discussion, skill practice).\<close>
  "busyInstance =
     startedInstance\<lparr>loadManager := (loadManager startedInstance)\<lparr>currentLoad := 1\<rparr>\<rparr>"

definition tiredInstance :: AutonomousConsciousnessV4 where
  \<comment> \<open>\<open>busyInstance\<close> after 90 ticks of the load monitor (450 seconds)\<close>
  "tiredInstance = (cognitiveLoadMonitoring_tick 0 ^^ 90) busyInstance"


section \<open>Facts about the load manager\<close>

lemma tick_fields:
  "awake (cognitiveLoadMonitoring_tick now ac) = awake ac"
  "startTime (cognitiveLoadMonitoring_tick now ac) = startTime ac"
  "dreamTrigger (cognitiveLoadMonitoring_tick now ac) = dreamTrigger ac"
  "discussionMgr (cognitiveLoadMonitoring_tick now ac) = discussionMgr ac"
  "currentLoad (loadManager (cognitiveLoadMonitoring_tick now ac)) = currentLoad (loadManager ac)"
  "fatigueRate (loadManager (cognitiveLoadMonitoring_tick now ac)) = fatigueRate (loadManager ac)"
  "recoveryRate (loadManager (cognitiveLoadMonitoring_tick now ac)) = recoveryRate (loadManager ac)"
  "fatigueLevel (loadManager (cognitiveLoadMonitoring_tick now ac)) =
     (if awake ac
      then fatigueLevel (loadManager ac) + currentLoad (loadManager ac) * fatigueRate (loadManager ac)
      else fatigueLevel (loadManager ac))"
  by (simp_all add: cognitiveLoadMonitoring_tick_def Let_def)

lemma tick_iterated:
  "awake ac \<Longrightarrow>
   awake ((cognitiveLoadMonitoring_tick now ^^ n) ac) \<and>
   startTime ((cognitiveLoadMonitoring_tick now ^^ n) ac) = startTime ac \<and>
   dreamTrigger ((cognitiveLoadMonitoring_tick now ^^ n) ac) = dreamTrigger ac \<and>
   discussionMgr ((cognitiveLoadMonitoring_tick now ^^ n) ac) = discussionMgr ac \<and>
   currentLoad (loadManager ((cognitiveLoadMonitoring_tick now ^^ n) ac))
     = currentLoad (loadManager ac) \<and>
   fatigueRate (loadManager ((cognitiveLoadMonitoring_tick now ^^ n) ac))
     = fatigueRate (loadManager ac) \<and>
   recoveryRate (loadManager ((cognitiveLoadMonitoring_tick now ^^ n) ac))
     = recoveryRate (loadManager ac) \<and>
   fatigueLevel (loadManager ((cognitiveLoadMonitoring_tick now ^^ n) ac)) =
     fatigueLevel (loadManager ac)
       + real n * (currentLoad (loadManager ac) * fatigueRate (loadManager ac))"
  by (induction n) (simp_all add: tick_fields algebra_simps)

lemma busyInstance_fields:
  "awake busyInstance"
  "running busyInstance"
  "startTime busyInstance = 0"
  "enabled (dreamTrigger busyInstance)"
  "fatigueThreshold (dreamTrigger busyInstance) = 0.75"
  "minWakeDuration (dreamTrigger busyInstance) = 30 * Minute"
  "discussionMgr busyInstance = Some \<lparr> HasActiveDiscussions = False \<rparr>"
  "fatigueLevel (loadManager busyInstance) = 0"
  "currentLoad (loadManager busyInstance) = 1"
  "fatigueRate (loadManager busyInstance) = 0.01"
  "recoveryRate (loadManager busyInstance) = 0.05"
  by (simp_all add: busyInstance_def startedInstance_def Start_def allStart_def
        NewAutonomousConsciousnessV4_def Wake_def started_def loadPersistedStateV4_def Let_def)

lemma tiredInstance_fields:
  "awake tiredInstance"
  "startTime tiredInstance = 0"
  "enabled (dreamTrigger tiredInstance)"
  "fatigueThreshold (dreamTrigger tiredInstance) = 0.75"
  "minWakeDuration (dreamTrigger tiredInstance) = 30 * Minute"
  "discussionMgr tiredInstance = Some \<lparr> HasActiveDiscussions = False \<rparr>"
  "currentLoad (loadManager tiredInstance) = 1"
  "recoveryRate (loadManager tiredInstance) = 0.05"
  "fatigueLevel (loadManager tiredInstance) = 0.9"
  using tick_iterated [where ac = busyInstance and now = 0 and n = 90] busyInstance_fields(1)
  unfolding tiredInstance_def by (simp_all only: busyInstance_fields) simp_all

lemma recover_fields:
  "currentLoad (recover d lm) = currentLoad lm"
  "recoveryRate (recover d lm) = recoveryRate lm"
  "fatigueLevel (recover d lm) = max 0 (fatigueLevel lm * (1 - recoveryRate lm * Minutes d))"
  by (simp_all add: recover_def Let_def max_def)

lemma Minutes_nonneg: "0 \<le> d \<Longrightarrow> 0 \<le> Minutes d"
  by (simp add: Minutes_def Minute_def Second_def)

lemma recover_le:
  assumes "0 \<le> fatigueLevel lm" "0 \<le> recoveryRate lm" "0 \<le> d"
  shows "fatigueLevel (recover d lm) \<le> fatigueLevel lm"
proof -
  have "0 \<le> recoveryRate lm * Minutes d" using assms Minutes_nonneg by simp
  then have "1 - recoveryRate lm * Minutes d \<le> 1" by simp
  then have "fatigueLevel lm * (1 - recoveryRate lm * Minutes d) \<le> fatigueLevel lm * 1"
    using assms(1) by (rule mult_left_mono)
  then show ?thesis using assms(1) by (simp add: recover_fields)
qed

lemma dreamCycle_fields:
  "currentLoad (loadManager (dreamCycle d t0 ac)) = currentLoad (loadManager ac)"
  "fatigueLevel (loadManager (dreamCycle d t0 ac)) =
     (if awake ac then fatigueLevel (recover d (loadManager ac))
      else fatigueLevel (recover d (loadManager ac)) * 0.3)"
  by (simp_all add: dreamCycle_def Wake_def Let_def recover_fields)

lemma Rest_awake: "awake ac \<Longrightarrow> \<not> awake (Rest ac)"
  by (simp add: Rest_def Let_def)

lemma shouldInitiateRest_iff:
  "shouldInitiateRest now ac \<longleftrightarrow>
     minWakeDuration (dreamTrigger ac) \<le> now - startTime ac \<and>
     fatigueThreshold (dreamTrigger ac) \<le> fatigueLevel (loadManager ac) \<and>
     \<not> hasActiveDiscussion ac"
  by (auto simp: shouldInitiateRest_def Let_def)



lemma restDuration_bounds: "5 * Minute \<le> restDuration f \<and> restDuration f \<le> 2 * Hour"
  by (simp add: restDuration_def Let_def Hour_def Minute_def Second_def)


lemma restDuration_076: "restDuration 0.76 = 45 * Minute"
  by (simp add: restDuration_def float_to_int64_def wrap64_def Minute_def Second_def Hour_def
        Let_def)











section \<open>Facts about Start, Stop and the cycle counter\<close>

lemma Start_running:
  "running ac \<Longrightarrow> Start env t0 t1 ac = (Inl (AlreadyRunning ''autonomous consciousness already running''), ac)"
  by (simp add: Start_def)

lemma Wake_fields:
  "running (Wake t ac) = running ac"
  "loopsLaunched (Wake t ac) = loopsLaunched ac"
  by (simp_all add: Wake_def)

lemma Start_marks_running: "running (snd (Start env t0 t1 ac))"
  by (simp add: Start_def Let_def started_def loadPersistedStateV4_def Wake_fields split: option.splits)

lemma Start_success:
  "\<not> running ac \<Longrightarrow> allStarted env \<Longrightarrow> fst (Start env t0 t1 ac) = Inr ()"
  by (simp add: Start_def Let_def allStarted_def)

lemma Start_failure:
  "\<not> running ac \<Longrightarrow> \<not> allStarted env \<Longrightarrow>
     (\<exists>msg e. fst (Start env t0 t1 ac) = Inl (StartFailed msg e)) \<and>
     loopsLaunched (snd (Start env t0 t1 ac)) = loopsLaunched ac \<and>
     awake (snd (Start env t0 t1 ac)) = awake ac"
  by (auto simp: Start_def Let_def allStarted_def started_def split: option.splits)

lemma Start_launches:
  "\<not> running ac \<Longrightarrow> allStarted env \<Longrightarrow>
     length (loopsLaunched (snd (Start env t0 t1 ac))) = length (loopsLaunched ac) + 5 \<and>
     awake (snd (Start env t0 t1 ac))"
  by (simp add: Start_def Let_def allStarted_def started_def loadPersistedStateV4_def Wake_def)

lemma Echoself_Start_awake:
  "isAwake ae \<Longrightarrow> Echoself_Start env now ae = (Inl (AlreadyRunning ''echoself already awake''), ae)"
  by (simp add: Echoself_Start_def)

lemma Echoself_Start_success:
  "\<not> isAwake ae \<Longrightarrow> echoBeats_Start env = None \<Longrightarrow>
   (streamOfConsciousness ae \<longrightarrow> streamOfConsciousness_Start env = None) \<Longrightarrow>
   fst (Echoself_Start env now ae) = Inr () \<and> isAwake (snd (Echoself_Start env now ae)) \<and>
   currentState (snd (Echoself_Start env now ae)) = StateAwake"
  by (auto simp: Echoself_Start_def Let_def)

lemma Stop_running:
  "running ac \<Longrightarrow> fst (Stop ac) = Inr () \<and> \<not> running (snd (Stop ac)) \<and>
     cancelCalls (snd (Stop ac)) = cancelCalls ac + 1"
  by (simp add: Stop_def Let_def saveCurrentStateV4_def)

lemma Stop_not_running:
  "\<not> running ac \<Longrightarrow> Stop ac = (Inl (NotRunning ''autonomous consciousness not running''), ac)"
  by (simp add: Stop_def)

lemma Echoself_Stop_awake:
  "isAwake ae \<Longrightarrow> fst (Echoself_Stop ae) = Inr () \<and> \<not> isAwake (snd (Echoself_Stop ae)) \<and>
     currentState (snd (Echoself_Stop ae)) = StateResting \<and>
     count_list (collaboratorCalls (snd (Echoself_Stop ae))) ''cancel''
       = count_list (collaboratorCalls ae) ''cancel'' + 1"
  by (simp add: Echoself_Stop_def Let_def persistAllState_def)

lemma Echoself_Stop_not_awake:
  "\<not> isAwake ae \<Longrightarrow> Echoself_Stop ae = (Inl (NotRunning ''echoself not awake''), ae)"
  by (simp add: Echoself_Stop_def)

lemma step_counter:
  "(dreamCycle_ended (step e ae) = dreamCycle_ended ae \<and>
    cyclesCompleted (step e ae) = cyclesCompleted ae) \<or>
   (dreamCycle_ended (step e ae) = dreamCycle_ended ae + 1 \<and>
    cyclesCompleted (step e ae) = cyclesCompleted ae + 1)"
  by (cases e)
     (auto simp: Echoself_Start_def Echoself_Stop_def autonomousLifeCycle_tick_def
        initiateRest_def initiateDream_def dreamEnd_def handleWakeEvent_def
        handleThoughtEvent_def onWisdomExtracted_def Let_def
        split: option.splits EchoselfState.splits)

lemma run_counter:
  "\<exists>k \<le> length evs.
     dreamCycle_ended (run evs ae) = dreamCycle_ended ae + k \<and>
     cyclesCompleted (run evs ae) = cyclesCompleted ae + of_nat k"
proof (induction evs arbitrary: ae)
  case Nil
  then show ?case by simp
next
  case (Cons e es)
  obtain k where k: "k \<le> length es"
      "dreamCycle_ended (run es (step e ae)) = dreamCycle_ended (step e ae) + k"
      "cyclesCompleted (run es (step e ae)) = cyclesCompleted (step e ae) + of_nat k"
    using Cons.IH [of "step e ae"] by blast
  from step_counter [of e ae] show ?case
  proof
    assume "dreamCycle_ended (step e ae) = dreamCycle_ended ae \<and>
      cyclesCompleted (step e ae) = cyclesCompleted ae"
    then show ?thesis using k by (intro exI [of _ k]) simp
  next
    assume "dreamCycle_ended (step e ae) = dreamCycle_ended ae + 1 \<and>
      cyclesCompleted (step e ae) = cyclesCompleted ae + 1"
    then show ?thesis using k by (intro exI [of _ "Suc k"]) simp
  qed
qed

lemma dream_cycle_once:
  "dreamCycleIntegration ae \<Longrightarrow>
     dreamCycleIntegration (step EvDreamEnd (step (EvDream n) ae)) \<and>
     cyclesCompleted (step EvDreamEnd (step (EvDream n) ae)) = cyclesCompleted ae + 1 \<and>
     dreamEndGoroutines (step EvDreamEnd (step (EvDream n) ae)) = dreamEndGoroutines ae"
  by (simp add: initiateDream_def dreamEnd_def Let_def)

lemma dreamCycles_counter:
  "dreamCycleIntegration ae \<Longrightarrow>
     cyclesCompleted (run (dreamCycles N) ae) = cyclesCompleted ae + of_nat N"
proof (induction N arbitrary: ae)
  case 0
  then show ?case by simp
next
  case (Suc N)
  have "cyclesCompleted (run (dreamCycles N) (step EvDreamEnd (step (EvDream 0) ae)))
          = cyclesCompleted (step EvDreamEnd (step (EvDream 0) ae)) + of_nat N"
    using Suc.IH dream_cycle_once [OF Suc.prems] by blast
  then show ?case using dream_cycle_once [OF Suc.prems, of 0] by simp
qed

lemma unat_counter:
  fixes c :: "64 word"
  shows "unat c + k < 2 ^ 64 \<Longrightarrow> unat (c + of_nat k) = unat c + k"
  by (simp add: unat_word_ariths unat_of_nat)

lemma New_fields:
  "\<not> running (NewAutonomousConsciousnessV4 p)"
  "\<not> awake (NewAutonomousConsciousnessV4 p)"
  "loopsLaunched (NewAutonomousConsciousnessV4 p) = []"
  "cancelCalls (NewAutonomousConsciousnessV4 p) = 0"
  by (simp_all add: NewAutonomousConsciousnessV4_def)

lemma NewEchoself_fields:
  "\<not> isAwake (NewAutonomousEchoself cfg t)"
  "currentState (NewAutonomousEchoself cfg t) = StateInitializing"
  "cyclesCompleted (NewAutonomousEchoself cfg t) = 0"
  "collaboratorCalls (NewAutonomousEchoself cfg t) = []"
  "dreamCycleIntegration (NewAutonomousEchoself None t)"
  "streamOfConsciousness (NewAutonomousEchoself None t)"
  by (simp_all add: NewAutonomousEchoself_def DefaultEchoselfConfig_def Let_def split: option.splits)

lemma allStarted_allStart: "allStarted allStart"
  by (simp add: allStarted_def allStart_def)

lemma dreamFails_not_allStarted: "\<not> allStarted dreamFails"
  by (simp add: allStarted_def dreamFails_def allStart_def)

section \<open>The claims\<close>

text \<open>
  C1 (as amended). The claim is that every write leaves \<open>fatigueLevel\<close> and \<open>currentLoad\<close>
  within [0,1], by a clamp in the same write. The fatigue tick of
  \<^verbatim>\<open>cognitiveLoadMonitoring\<close> has no clamp: from a started instance at load 1 and
  fatigue 0, 101 ticks (505 seconds) take the fatigue to 1.01.
\<close>

theorem fatigue_tick_exceeds_one_counterexample:
  "awake busyInstance \<and>
   0 \<le> fatigueLevel (loadManager busyInstance) \<and> fatigueLevel (loadManager busyInstance) \<le> 1 \<and>
   0 \<le> currentLoad (loadManager busyInstance) \<and> currentLoad (loadManager busyInstance) \<le> 1 \<and>
   1 < fatigueLevel (loadManager ((cognitiveLoadMonitoring_tick 0 ^^ 101) busyInstance))"
proof -
  have "fatigueLevel (loadManager ((cognitiveLoadMonitoring_tick 0 ^^ 101) busyInstance)) =
          fatigueLevel (loadManager busyInstance)
          + real 101 * (currentLoad (loadManager busyInstance)
                         * fatigueRate (loadManager busyInstance))"
    using tick_iterated [where ac = busyInstance and now = 0 and n = 101] busyInstance_fields(1)
    by blast
  then have "fatigueLevel (loadManager ((cognitiveLoadMonitoring_tick 0 ^^ 101) busyInstance))
               = 1.01"
    by (simp only: busyInstance_fields)
  then show ?thesis by (simp add: busyInstance_fields)
qed

text \<open>
  C1, what holds. While awake the tick stores \<open>fatigue + load * rate\<close>, which stays
  non-negative for a non-negative load and rate (there is no upper bound). The recovery
  write of \<^verbatim>\<open>dreamCycle\<close>, with the \<^verbatim>\<open>Wake\<close> that follows it, leaves the fatigue
  non-negative whatever the input (the floor at 0 is in the same locked block), and
  within [0,1] if it was there before and the recovery rate and the duration are
  non-negative. Neither operation writes \<open>currentLoad\<close>.
\<close>

theorem fatigue_bounds_after_write:
  "(awake ac \<longrightarrow>
      fatigueLevel (loadManager (cognitiveLoadMonitoring_tick now ac)) =
        fatigueLevel (loadManager ac)
          + currentLoad (loadManager ac) * fatigueRate (loadManager ac)) \<and>
   (0 \<le> fatigueLevel (loadManager ac) \<and> 0 \<le> currentLoad (loadManager ac) \<and>
    0 \<le> fatigueRate (loadManager ac) \<longrightarrow>
      0 \<le> fatigueLevel (loadManager (cognitiveLoadMonitoring_tick now ac))) \<and>
   currentLoad (loadManager (cognitiveLoadMonitoring_tick now ac))
     = currentLoad (loadManager ac) \<and>
   0 \<le> fatigueLevel (loadManager (dreamCycle d t0 ac)) \<and>
   (0 \<le> fatigueLevel (loadManager ac) \<and> fatigueLevel (loadManager ac) \<le> 1 \<and>
    0 \<le> recoveryRate (loadManager ac) \<and> 0 \<le> d \<longrightarrow>
      fatigueLevel (loadManager (dreamCycle d t0 ac)) \<le> 1) \<and>
   currentLoad (loadManager (dreamCycle d t0 ac)) = currentLoad (loadManager ac)"
proof -
  have a: "0 \<le> fatigueLevel (recover d (loadManager ac))" by (simp add: recover_fields)
  have b: "fatigueLevel (recover d (loadManager ac)) \<le> 1"
    if "0 \<le> fatigueLevel (loadManager ac)" "fatigueLevel (loadManager ac) \<le> 1"
       "0 \<le> recoveryRate (loadManager ac)" "0 \<le> d"
    using recover_le [of "loadManager ac" d] that by simp
  show ?thesis using a b by (auto simp: tick_fields dreamCycle_fields)
qed

theorem fatigue_bounds_after_write_witness:
  "awake tiredInstance \<and>
   0 \<le> fatigueLevel (loadManager tiredInstance) \<and> fatigueLevel (loadManager tiredInstance) \<le> 1 \<and>
   0 \<le> currentLoad (loadManager tiredInstance) \<and>
   0 \<le> recoveryRate (loadManager tiredInstance) \<and> (0::int) \<le> 10 * Minute \<and>
   fatigueLevel (loadManager (cognitiveLoadMonitoring_tick 0 tiredInstance)) = 0.9 + 1 * 0.01 \<and>
   0 \<le> fatigueLevel (loadManager (dreamCycle (10 * Minute) 0 tiredInstance)) \<and>
   fatigueLevel (loadManager (dreamCycle (10 * Minute) 0 tiredInstance)) \<le> 1"
proof -
  have h: "awake tiredInstance"
    "0 \<le> fatigueLevel (loadManager tiredInstance) \<and> fatigueLevel (loadManager tiredInstance) \<le> 1 \<and>
     0 \<le> recoveryRate (loadManager tiredInstance) \<and> (0::int) \<le> 10 * Minute"
    by (simp_all add: tiredInstance_fields Minute_def Second_def)
  have r: "fatigueRate (loadManager tiredInstance) = 0.01"
    using tick_iterated [where ac = busyInstance and now = 0 and n = 90] busyInstance_fields(1)
    unfolding tiredInstance_def by (simp only: busyInstance_fields)
  from fatigue_bounds_after_write [of tiredInstance 0 "10 * Minute" 0] h
  have "fatigueLevel (loadManager (cognitiveLoadMonitoring_tick 0 tiredInstance)) =
          fatigueLevel (loadManager tiredInstance)
            + currentLoad (loadManager tiredInstance) * fatigueRate (loadManager tiredInstance)"
    and "0 \<le> fatigueLevel (loadManager (dreamCycle (10 * Minute) 0 tiredInstance))"
    and "fatigueLevel (loadManager (dreamCycle (10 * Minute) 0 tiredInstance)) \<le> 1"
    by blast+
  then show ?thesis using h by (simp add: tiredInstance_fields r)
qed

text \<open>
  C2. \<open>shouldInitiateRest\<close> returns true if and only if the time since \<open>startTime\<close>
  (set on entering the awake phase) is at least \<open>minWakeDuration\<close>, the fatigue is at least
  \<open>fatigueThreshold\<close> and no discussion is active. On a tick of the automatic trigger
  loop of an awake instance (the trigger enabled, as the constructor leaves it), the
  instance rests exactly when the three conditions hold, and is unchanged otherwise.
\<close>

theorem automatic_rest_guard:
  "(shouldInitiateRest now ac \<longleftrightarrow>
      minWakeDuration (dreamTrigger ac) \<le> now - startTime ac \<and>
      fatigueThreshold (dreamTrigger ac) \<le> fatigueLevel (loadManager ac) \<and>
      \<not> hasActiveDiscussion ac) \<and>
   (enabled (dreamTrigger ac) \<and> awake ac \<longrightarrow>
      automaticDreamTriggerLoop_tick now ac =
        (if minWakeDuration (dreamTrigger ac) \<le> now - startTime ac \<and>
            fatigueThreshold (dreamTrigger ac) \<le> fatigueLevel (loadManager ac) \<and>
            \<not> hasActiveDiscussion ac
         then Rest ac else ac) \<and>
      (\<not> awake (automaticDreamTriggerLoop_tick now ac) \<longleftrightarrow>
         minWakeDuration (dreamTrigger ac) \<le> now - startTime ac \<and>
         fatigueThreshold (dreamTrigger ac) \<le> fatigueLevel (loadManager ac) \<and>
         \<not> hasActiveDiscussion ac))"
  by (simp add: shouldInitiateRest_iff automaticDreamTriggerLoop_tick_def Rest_awake)

theorem automatic_rest_guard_witness:
  "enabled (dreamTrigger tiredInstance) \<and> awake tiredInstance \<and>
   shouldInitiateRest (31 * Minute) tiredInstance \<and>
   \<not> awake (automaticDreamTriggerLoop_tick (31 * Minute) tiredInstance) \<and>
   \<not> shouldInitiateRest (29 * Minute) tiredInstance \<and>
   awake (automaticDreamTriggerLoop_tick (29 * Minute) tiredInstance)"
proof -
  have h: "enabled (dreamTrigger tiredInstance) \<and> awake tiredInstance"
    by (simp add: tiredInstance_fields)
  have d: "\<not> hasActiveDiscussion tiredInstance"
    by (simp add: hasActiveDiscussion_def tiredInstance_fields)
  have g31: "minWakeDuration (dreamTrigger tiredInstance) \<le> 31 * Minute - startTime tiredInstance \<and>
      fatigueThreshold (dreamTrigger tiredInstance) \<le> fatigueLevel (loadManager tiredInstance)"
    by (simp add: tiredInstance_fields Minute_def Second_def)
  have g29: "\<not> minWakeDuration (dreamTrigger tiredInstance) \<le> 29 * Minute - startTime tiredInstance"
    by (simp add: tiredInstance_fields Minute_def Second_def)
  from automatic_rest_guard [of "31 * Minute" tiredInstance] h d g31
  have a: "shouldInitiateRest (31 * Minute) tiredInstance \<and>
      \<not> awake (automaticDreamTriggerLoop_tick (31 * Minute) tiredInstance)"
    by blast
  from automatic_rest_guard [of "29 * Minute" tiredInstance] h g29
  have b: "\<not> shouldInitiateRest (29 * Minute) tiredInstance \<and>
      awake (automaticDreamTriggerLoop_tick (29 * Minute) tiredInstance)"
    by blast
  show ?thesis using h a b by blast
qed

text \<open>
  C3. \<^verbatim>\<open>Rest\<close> computes \<^verbatim>\<open>time.Duration(fatigue*60) * time.Minute\<close>: the conversion
  to the integer type \<^verbatim>\<open>Duration\<close> comes before the multiplication, so the fraction of
  a minute is dropped. At fatigue 0.76 the code rests 45 minutes; the formula of the
  claim, \<open>clamp(f * 60, 5, 120)\<close> minutes, gives 45.6 minutes.
\<close>

theorem rest_duration_truncates_minutes:
  "Minutes (restDuration 0.76) = 45 \<and> spec_restMinutes 0.76 = 45.6 \<and>
   Minutes (restDuration 0.76) \<noteq> spec_restMinutes 0.76"
  by (simp only: restDuration_076)
     (simp add: Minutes_def Minute_def Second_def spec_restMinutes_def)

text \<open>
  C4. \<open>cyclesCompleted\<close> is written in one place, the goroutine that ends a dream cycle,
  which adds 1 after \<^verbatim>\<open>EndDreamCycle()\<close>. Over any sequence of events the counter is its
  starting value plus the number of dream cycles ended in between (as a \<^verbatim>\<open>uint64\<close>);
  while the count stays below \<open>2 ^ 64\<close> it never decreases. Driving \<open>N\<close> dream cycles to
  completion on an instance with a dream system adds exactly \<open>N\<close>. \<^verbatim>\<open>GetMetrics\<close>
  reports the counter as it is.
\<close>

theorem cyclesCompleted_counts_dream_cycles:
  "(\<exists>k \<le> length evs.
      dreamCycle_ended (run evs ae) = dreamCycle_ended ae + k \<and>
      cyclesCompleted (run evs ae) = cyclesCompleted ae + of_nat k \<and>
      (unat (cyclesCompleted ae) + length evs < 2 ^ 64 \<longrightarrow>
         unat (cyclesCompleted (run evs ae)) = unat (cyclesCompleted ae) + k)) \<and>
   (dreamCycleIntegration ae \<longrightarrow>
      cyclesCompleted (run (dreamCycles N) ae) = cyclesCompleted ae + of_nat N \<and>
      (unat (cyclesCompleted ae) + N < 2 ^ 64 \<longrightarrow>
         unat (cyclesCompleted (run (dreamCycles N) ae)) = unat (cyclesCompleted ae) + N)) \<and>
   cycles_completed (GetMetrics now ae) = cyclesCompleted ae"
proof -
  obtain k where k: "k \<le> length evs"
      "dreamCycle_ended (run evs ae) = dreamCycle_ended ae + k"
      "cyclesCompleted (run evs ae) = cyclesCompleted ae + of_nat k"
    using run_counter [of evs ae] by blast
  have "unat (cyclesCompleted (run evs ae)) = unat (cyclesCompleted ae) + k"
    if "unat (cyclesCompleted ae) + length evs < 2 ^ 64"
  proof -
    have "unat (cyclesCompleted ae) + k < 2 ^ 64" using that k(1) by linarith
    then show ?thesis by (simp only: k(3) unat_counter)
  qed
  then have first: "\<exists>k \<le> length evs.
      dreamCycle_ended (run evs ae) = dreamCycle_ended ae + k \<and>
      cyclesCompleted (run evs ae) = cyclesCompleted ae + of_nat k \<and>
      (unat (cyclesCompleted ae) + length evs < 2 ^ 64 \<longrightarrow>
         unat (cyclesCompleted (run evs ae)) = unat (cyclesCompleted ae) + k)"
    using k by blast
  have second: "cyclesCompleted (run (dreamCycles N) ae) = cyclesCompleted ae + of_nat N \<and>
      (unat (cyclesCompleted ae) + N < 2 ^ 64 \<longrightarrow>
         unat (cyclesCompleted (run (dreamCycles N) ae)) = unat (cyclesCompleted ae) + N)"
    if "dreamCycleIntegration ae"
    using dreamCycles_counter [OF that, of N] by (simp add: unat_counter)
  have third: "cycles_completed (GetMetrics now ae) = cyclesCompleted ae"
    by (simp add: GetMetrics_def)
  show ?thesis using first second third by blast
qed

theorem cyclesCompleted_counts_dream_cycles_witness:
  "dreamCycleIntegration (NewAutonomousEchoself None 0) \<and>
   unat (cyclesCompleted (NewAutonomousEchoself None 0)) + 3 < (2::nat) ^ 64 \<and>
   unat (cyclesCompleted (run (dreamCycles 3) (NewAutonomousEchoself None 0))) = 3"
proof -
  have h: "dreamCycleIntegration (NewAutonomousEchoself None 0)"
    "unat (cyclesCompleted (NewAutonomousEchoself None 0)) + 3 < (2::nat) ^ 64"
    by (simp_all add: NewEchoself_fields)
  from cyclesCompleted_counts_dream_cycles [of "[]" "NewAutonomousEchoself None 0" 3 0] h
  have "unat (cyclesCompleted (run (dreamCycles 3) (NewAutonomousEchoself None 0)))
          = unat (cyclesCompleted (NewAutonomousEchoself None 0)) + 3"
    by blast
  then show ?thesis using h by (simp add: NewEchoself_fields)
qed

text \<open>
  C5 (as amended). The claim is a round trip: save, then load on a fresh instance, gives
  back the phase, the fatigue and the counters. Both functions are stubs: after saving
  \<open>tiredInstance\<close> (awake, fatigue 0.9) a fresh instance that loads is still asleep with
  fatigue 0.
\<close>

theorem persistence_round_trip_counterexample:
  "fst (saveCurrentStateV4 tiredInstance) = Inr () \<and>
   fst (loadPersistedStateV4 (NewAutonomousConsciousnessV4 True)) = Inr () \<and>
   fatigueLevel (loadManager tiredInstance) = 0.9 \<and>
   fatigueLevel (loadManager (snd (loadPersistedStateV4 (NewAutonomousConsciousnessV4 True)))) = 0 \<and>
   awake tiredInstance \<and>
   \<not> awake (snd (loadPersistedStateV4 (NewAutonomousConsciousnessV4 True)))"
  by (simp add: tiredInstance_fields saveCurrentStateV4_def loadPersistedStateV4_def
        NewAutonomousConsciousnessV4_def)

text \<open>
  C5, what holds. \<open>saveCurrentStateV4\<close> and \<open>loadPersistedStateV4\<close> both return nil and
  leave the instance as it was; so loading leaves a fresh instance at its constructed
  values, whatever was saved before.
\<close>

theorem persistence_stubs_change_nothing:
  "saveCurrentStateV4 ac = (Inr (), ac) \<and> loadPersistedStateV4 ac = (Inr (), ac) \<and>
   snd (loadPersistedStateV4 (NewAutonomousConsciousnessV4 p)) = NewAutonomousConsciousnessV4 p"
  by (simp add: saveCurrentStateV4_def loadPersistedStateV4_def)




text \<open>
  C7. With a positive working-memory capacity (the constructor sets 7),
  \<open>calculateCurrentLoad\<close> is the sum of the base term 0.1, the occupancy fraction
  weighted 0.3, 0.4 for an active discussion and 0.3 for skill practice, capped at 1;
  the result lies in [0,1].
\<close>

theorem calculateCurrentLoad_weighted_sum:
  assumes "0 < capacity (workingMemory ac)"
  shows "calculateCurrentLoad ac =
      min 1 (0.1
             + real (length (buffer (workingMemory ac)))
                 / real_of_int (capacity (workingMemory ac)) * 0.3
             + (if hasActiveDiscussion ac then 0.4 else 0)
             + (if IsCurrentlyPracticing (skills ac) then 0.3 else 0))
    \<and> 0 \<le> calculateCurrentLoad ac \<and> calculateCurrentLoad ac \<le> 1"
proof -
  let ?m = "real (length (buffer (workingMemory ac))) / real_of_int (capacity (workingMemory ac))"
  have m: "0 \<le> ?m" using assms by simp
  show ?thesis using m
    by (auto simp: calculateCurrentLoad_def Let_def min_def)
qed

theorem calculateCurrentLoad_weighted_sum_witness:
  "0 < capacity (workingMemory (NewAutonomousConsciousnessV4 True)) \<and>
   calculateCurrentLoad (NewAutonomousConsciousnessV4 True) = 0.1 \<and>
   0 \<le> calculateCurrentLoad (NewAutonomousConsciousnessV4 True) \<and>
   calculateCurrentLoad (NewAutonomousConsciousnessV4 True) \<le> 1"
proof -
  have h: "0 < capacity (workingMemory (NewAutonomousConsciousnessV4 True))"
    by (simp add: NewAutonomousConsciousnessV4_def)
  show ?thesis
    using calculateCurrentLoad_weighted_sum [OF h] h
    by (simp add: NewAutonomousConsciousnessV4_def hasActiveDiscussion_def)
qed

text \<open>
  C8 (as amended). The claim says that \<^verbatim>\<open>Start()\<close> on an instance that is not running
  returns success. When a subcomponent fails to start, \<^verbatim>\<open>Start()\<close> returns that error:
  here the dream system fails on a new instance.
\<close>

theorem Start_returns_subcomponent_error_counterexample:
  "\<not> running (NewAutonomousConsciousnessV4 True) \<and>
   fst (Start dreamFails 0 0 (NewAutonomousConsciousnessV4 True))
     = Inl (StartFailed ''failed to start dream system'' ''dream system unavailable'')"
  by (simp add: Start_def dreamFails_def allStart_def NewAutonomousConsciousnessV4_def Let_def)

text \<open>
  C8, what holds. \<^verbatim>\<open>Start()\<close> on a running instance returns the "already running"
  error and the instance is unchanged, so nothing is launched. On an instance that is not
  running, \<^verbatim>\<open>Start()\<close> returns success and marks the instance running when every
  subcomponent starts. The same holds for \<^verbatim>\<open>AutonomousEchoself\<close>, whose running flag is
  \<open>isAwake\<close>.
\<close>

theorem Start_already_running:
  "(running ac \<longrightarrow>
      Start env t0 t1 ac = (Inl (AlreadyRunning ''autonomous consciousness already running''), ac)) \<and>
   (\<not> running ac \<and> allStarted env \<longrightarrow>
      fst (Start env t0 t1 ac) = Inr () \<and> running (snd (Start env t0 t1 ac))) \<and>
   (isAwake ae \<longrightarrow>
      Echoself_Start eenv now ae = (Inl (AlreadyRunning ''echoself already awake''), ae)) \<and>
   (\<not> isAwake ae \<and> echoBeats_Start eenv = None \<and>
    (streamOfConsciousness ae \<longrightarrow> streamOfConsciousness_Start eenv = None) \<longrightarrow>
      fst (Echoself_Start eenv now ae) = Inr () \<and> isAwake (snd (Echoself_Start eenv now ae)))"
  using Start_running [of ac env t0 t1] Start_success [of ac env t0 t1]
    Start_marks_running [of env t0 t1 ac] Echoself_Start_awake [of ae eenv now]
    Echoself_Start_success [of ae eenv now]
  by blast

theorem Start_already_running_witness:
  "\<not> running (NewAutonomousConsciousnessV4 True) \<and> allStarted allStart \<and>
   fst (Start allStart 0 0 (NewAutonomousConsciousnessV4 True)) = Inr () \<and>
   running startedInstance \<and>
   Start allStart 1 1 startedInstance
     = (Inl (AlreadyRunning ''autonomous consciousness already running''), startedInstance) \<and>
   \<not> isAwake (NewAutonomousEchoself None 0) \<and>
   isAwake startedEchoself \<and>
   Echoself_Start \<lparr> echoBeats_Start = None, streamOfConsciousness_Start = None \<rparr> 1 startedEchoself
     = (Inl (AlreadyRunning ''echoself already awake''), startedEchoself)"
proof -
  let ?env = "\<lparr> echoBeats_Start = None, streamOfConsciousness_Start = None \<rparr>"
  have h1: "\<not> running (NewAutonomousConsciousnessV4 True) \<and> allStarted allStart"
    by (simp add: New_fields allStarted_allStart)
  have h2: "\<not> isAwake (NewAutonomousEchoself None 0) \<and> echoBeats_Start ?env = None \<and>
      (streamOfConsciousness (NewAutonomousEchoself None 0) \<longrightarrow>
         streamOfConsciousness_Start ?env = None)"
    by (simp add: NewEchoself_fields)
  from Start_already_running [of "NewAutonomousConsciousnessV4 True" allStart 0 0 "NewAutonomousEchoself None 0" ?env 0]
    h1 h2
  have a: "fst (Start allStart 0 0 (NewAutonomousConsciousnessV4 True)) = Inr ()"
    "running startedInstance" "isAwake startedEchoself"
    unfolding startedInstance_def startedEchoself_def by blast+
  from Start_already_running [of startedInstance allStart 1 1 startedEchoself ?env 1] a
  have b: "Start allStart 1 1 startedInstance
     = (Inl (AlreadyRunning ''autonomous consciousness already running''), startedInstance)"
    "Echoself_Start ?env 1 startedEchoself
     = (Inl (AlreadyRunning ''echoself already awake''), startedEchoself)"
    by blast+
  show ?thesis using h1 h2 a b by blast
qed

text \<open>
  C9. \<^verbatim>\<open>Stop()\<close> on a running instance succeeds and cancels once; a second \<^verbatim>\<open>Stop()\<close>
  returns the "not running" error and changes nothing, so nothing is released twice.
  \<^verbatim>\<open>Stop()\<close> on an instance that is not running, a new one in particular, returns the
  error and leaves the instance as it was. The same holds for \<^verbatim>\<open>AutonomousEchoself\<close>.
\<close>

theorem Stop_twice:
  "(running ac \<longrightarrow>
      fst (Stop ac) = Inr () \<and>
      cancelCalls (snd (Stop ac)) = cancelCalls ac + 1 \<and>
      Stop (snd (Stop ac))
        = (Inl (NotRunning ''autonomous consciousness not running''), snd (Stop ac))) \<and>
   (\<not> running ac \<longrightarrow>
      Stop ac = (Inl (NotRunning ''autonomous consciousness not running''), ac)) \<and>
   Stop (NewAutonomousConsciousnessV4 p)
     = (Inl (NotRunning ''autonomous consciousness not running''), NewAutonomousConsciousnessV4 p) \<and>
   (isAwake ae \<longrightarrow>
      fst (Echoself_Stop ae) = Inr () \<and>
      count_list (collaboratorCalls (snd (Echoself_Stop ae))) ''cancel''
        = count_list (collaboratorCalls ae) ''cancel'' + 1 \<and>
      Echoself_Stop (snd (Echoself_Stop ae))
        = (Inl (NotRunning ''echoself not awake''), snd (Echoself_Stop ae))) \<and>
   (\<not> isAwake ae \<longrightarrow> Echoself_Stop ae = (Inl (NotRunning ''echoself not awake''), ae)) \<and>
   Echoself_Stop (NewAutonomousEchoself cfg t)
     = (Inl (NotRunning ''echoself not awake''), NewAutonomousEchoself cfg t)"
  using Stop_running [of ac] Stop_not_running [of ac] Stop_not_running [of "snd (Stop ac)"]
    Stop_not_running [of "NewAutonomousConsciousnessV4 p"] New_fields(1) [of p]
    Echoself_Stop_awake [of ae] Echoself_Stop_not_awake [of ae]
    Echoself_Stop_not_awake [of "snd (Echoself_Stop ae)"]
    Echoself_Stop_not_awake [of "NewAutonomousEchoself cfg t"] NewEchoself_fields(1) [of cfg t]
  by blast

theorem Stop_twice_witness:
  "running startedInstance \<and> isAwake startedEchoself \<and>
   fst (Stop startedInstance) = Inr () \<and>
   fst (Stop (snd (Stop startedInstance))) = Inl (NotRunning ''autonomous consciousness not running'') \<and>
   snd (Stop (snd (Stop startedInstance))) = snd (Stop startedInstance) \<and>
   fst (Echoself_Stop startedEchoself) = Inr () \<and>
   fst (Echoself_Stop (snd (Echoself_Stop startedEchoself))) = Inl (NotRunning ''echoself not awake'') \<and>
   snd (Echoself_Stop (snd (Echoself_Stop startedEchoself))) = snd (Echoself_Stop startedEchoself)"
proof -
  have h: "running startedInstance" "isAwake startedEchoself"
    unfolding startedInstance_def startedEchoself_def
    by (simp_all add: Start_marks_running Echoself_Start_success NewEchoself_fields)
  from Stop_twice [of startedInstance True startedEchoself None 0] h
  have "fst (Stop startedInstance) = Inr ()"
    "Stop (snd (Stop startedInstance))
        = (Inl (NotRunning ''autonomous consciousness not running''), snd (Stop startedInstance))"
    "fst (Echoself_Stop startedEchoself) = Inr ()"
    "Echoself_Stop (snd (Echoself_Stop startedEchoself))
        = (Inl (NotRunning ''echoself not awake''), snd (Echoself_Stop startedEchoself))"
    by blast+
  then show ?thesis using h by simp
qed

text \<open>
  C10. If a subcomponent fails during \<^verbatim>\<open>Start()\<close> on an instance that is not running,
  \<^verbatim>\<open>Start()\<close> returns the failure, no loop is launched and the instance does not wake,
  but \<open>running\<close> stays set: the next \<^verbatim>\<open>Start()\<close> returns "already running".
\<close>

theorem Start_failure_leaves_running:
  "\<not> running ac \<and> \<not> allStarted env \<longrightarrow>
     (\<exists>msg e. fst (Start env t0 t1 ac) = Inl (StartFailed msg e)) \<and>
     running (snd (Start env t0 t1 ac)) \<and>
     loopsLaunched (snd (Start env t0 t1 ac)) = loopsLaunched ac \<and>
     awake (snd (Start env t0 t1 ac)) = awake ac \<and>
     Start env' t0' t1' (snd (Start env t0 t1 ac))
       = (Inl (AlreadyRunning ''autonomous consciousness already running''),
          snd (Start env t0 t1 ac))"
  using Start_failure [of ac env t0 t1] Start_marks_running [of env t0 t1 ac]
    Start_running [of "snd (Start env t0 t1 ac)" env' t0' t1']
  by blast

theorem Start_failure_leaves_running_witness:
  "\<not> running (NewAutonomousConsciousnessV4 True) \<and> \<not> allStarted dreamFails \<and>
   fst (Start dreamFails 0 0 (NewAutonomousConsciousnessV4 True))
     = Inl (StartFailed ''failed to start dream system'' ''dream system unavailable'') \<and>
   running (snd (Start dreamFails 0 0 (NewAutonomousConsciousnessV4 True))) \<and>
   loopsLaunched (snd (Start dreamFails 0 0 (NewAutonomousConsciousnessV4 True))) = [] \<and>
   \<not> awake (snd (Start dreamFails 0 0 (NewAutonomousConsciousnessV4 True))) \<and>
   fst (Start allStart 1 1 (snd (Start dreamFails 0 0 (NewAutonomousConsciousnessV4 True))))
     = Inl (AlreadyRunning ''autonomous consciousness already running'')"
proof -
  have h: "\<not> running (NewAutonomousConsciousnessV4 True) \<and> \<not> allStarted dreamFails"
    by (simp add: New_fields dreamFails_not_allStarted)
  have e: "fst (Start dreamFails 0 0 (NewAutonomousConsciousnessV4 True))
     = Inl (StartFailed ''failed to start dream system'' ''dream system unavailable'')"
    by (simp add: Start_def dreamFails_def allStart_def NewAutonomousConsciousnessV4_def Let_def)
  from Start_failure_leaves_running [of "NewAutonomousConsciousnessV4 True" dreamFails 0 0 allStart 1 1] h
  have "running (snd (Start dreamFails 0 0 (NewAutonomousConsciousnessV4 True)))"
    "loopsLaunched (snd (Start dreamFails 0 0 (NewAutonomousConsciousnessV4 True)))
       = loopsLaunched (NewAutonomousConsciousnessV4 True)"
    "awake (snd (Start dreamFails 0 0 (NewAutonomousConsciousnessV4 True)))
       = awake (NewAutonomousConsciousnessV4 True)"
    "Start allStart 1 1 (snd (Start dreamFails 0 0 (NewAutonomousConsciousnessV4 True)))
       = (Inl (AlreadyRunning ''autonomous consciousness already running''),
          snd (Start dreamFails 0 0 (NewAutonomousConsciousnessV4 True)))"
    by blast+
  then show ?thesis using h e by (simp add: New_fields)
qed

end
